theory Spec2Isabelle
  imports Complex_Main "HOL-Library.Product_Lexorder"
begin

section \<open>Floating-point values\<close>

text \<open>
  The pipeline of \<^verbatim>\<open>definitive_app.py\<close> computes on pandas series of float64 values.
  A float is modelled as a real number or one of the three exceptional values of IEEE 754.
  The exceptional values follow IEEE 754; rounding, overflow to infinity and the sign of
  zero are not modelled (a finite float is the real number it stands for).
\<close>

datatype fl = Fin real | PInf | NInf | NaN

datatype error = ValueError | IndexError

fun fneg :: "fl \<Rightarrow> fl" where
  "fneg (Fin a) = Fin (- a)"
| "fneg PInf = NInf"
| "fneg NInf = PInf"
| "fneg NaN = NaN"

fun fadd :: "fl \<Rightarrow> fl \<Rightarrow> fl" where
  "fadd NaN y = NaN"
| "fadd x NaN = NaN"
| "fadd (Fin a) (Fin b) = Fin (a + b)"
| "fadd PInf NInf = NaN"
| "fadd NInf PInf = NaN"
| "fadd PInf y = PInf"
| "fadd x PInf = PInf"
| "fadd NInf y = NInf"
| "fadd x NInf = NInf"

definition fsub :: "fl \<Rightarrow> fl \<Rightarrow> fl" where
  "fsub x y = fadd x (fneg y)"

definition signed_inf :: "bool \<Rightarrow> fl" where
  "signed_inf pos = (if pos then PInf else NInf)"

fun fmul :: "fl \<Rightarrow> fl \<Rightarrow> fl" where
  "fmul NaN y = NaN"
| "fmul x NaN = NaN"
| "fmul (Fin a) (Fin b) = Fin (a * b)"
| "fmul (Fin a) PInf = (if a = 0 then NaN else signed_inf (0 < a))"
| "fmul (Fin a) NInf = (if a = 0 then NaN else signed_inf (a < 0))"
| "fmul PInf (Fin b) = (if b = 0 then NaN else signed_inf (0 < b))"
| "fmul NInf (Fin b) = (if b = 0 then NaN else signed_inf (b < 0))"
| "fmul PInf PInf = PInf"
| "fmul NInf NInf = PInf"
| "fmul PInf NInf = NInf"
| "fmul NInf PInf = NInf"

fun fdiv :: "fl \<Rightarrow> fl \<Rightarrow> fl" where
  "fdiv NaN y = NaN"
| "fdiv x NaN = NaN"
| "fdiv (Fin a) (Fin b) =
     (if b \<noteq> 0 then Fin (a / b) else if a = 0 then NaN else signed_inf (0 < a))"
| "fdiv (Fin a) PInf = Fin 0"
| "fdiv (Fin a) NInf = Fin 0"
| "fdiv PInf (Fin b) = signed_inf (0 \<le> b)"
| "fdiv NInf (Fin b) = signed_inf (b < 0)"
| "fdiv PInf y = NaN"
| "fdiv NInf y = NaN"

fun fsqrt :: "fl \<Rightarrow> fl" where
  "fsqrt (Fin a) = (if 0 \<le> a then Fin (sqrt a) else NaN)"
| "fsqrt PInf = PInf"
| "fsqrt NInf = NaN"
| "fsqrt NaN = NaN"

text \<open>Comparisons: every comparison with NaN is false, except \<open>!=\<close>, which is true.\<close>

fun flt :: "fl \<Rightarrow> fl \<Rightarrow> bool" where
  "flt NaN y = False"
| "flt x NaN = False"
| "flt (Fin a) (Fin b) = (a < b)"
| "flt x NInf = False"
| "flt PInf y = False"
| "flt NInf y = True"
| "flt x PInf = True"

fun feq :: "fl \<Rightarrow> fl \<Rightarrow> bool" where
  "feq NaN y = False"
| "feq x NaN = False"
| "feq x y = (x = y)"

definition fle :: "fl \<Rightarrow> fl \<Rightarrow> bool" where
  "fle x y = (flt x y \<or> feq x y)"

definition fgt :: "fl \<Rightarrow> fl \<Rightarrow> bool" where
  "fgt x y = flt y x"

definition fge :: "fl \<Rightarrow> fl \<Rightarrow> bool" where
  "fge x y = fle y x"

definition fne :: "fl \<Rightarrow> fl \<Rightarrow> bool" where
  "fne x y = (\<not> feq x y)"

definition is_fin :: "fl \<Rightarrow> bool" where
  "is_fin x = (case x of Fin a \<Rightarrow> True | _ \<Rightarrow> False)"


section \<open>Series\<close>

text \<open>
  A pandas Series is modelled as the list of its values; the index is the position.
  All series of one run share the index of the price series.  A price series is the
  \<^verbatim>\<open>Close\<close> column as \<^verbatim>\<open>parse_data_file\<close> leaves it, after the rows without a
  number were dropped: a list of finite numbers.
\<close>

text \<open>\<^verbatim>\<open>Series.shift(1)\<close>: every value moves one place down, the first place is NaN.\<close>

definition shift :: "fl list \<Rightarrow> fl list" where
  "shift xs = take (length xs) (NaN # xs)"

text \<open>\<^verbatim>\<open>Series.fillna(v)\<close>\<close>

definition fillna :: "fl list \<Rightarrow> fl \<Rightarrow> fl list" where
  "fillna xs v = map (\<lambda>x. if x = NaN then v else x) xs"

text \<open>\<^verbatim>\<open>Series.ffill()\<close>: a NaN takes the last value before it that is not NaN.\<close>

fun ffill_from :: "fl \<Rightarrow> fl list \<Rightarrow> fl list" where
  "ffill_from prev [] = []"
| "ffill_from prev (x # xs) =
     (if x = NaN then prev # ffill_from prev xs else x # ffill_from x xs)"

definition ffill :: "fl list \<Rightarrow> fl list" where
  "ffill xs = ffill_from NaN xs"

text \<open>\<^verbatim>\<open>Series.dropna()\<close>\<close>

definition dropna :: "fl list \<Rightarrow> fl list" where
  "dropna xs = filter (\<lambda>x. x \<noteq> NaN) xs"

text \<open>
  \<^verbatim>\<open>Series.pct_change()\<close> with the default arguments of pandas 1.x and 2.x:
  \<^verbatim>\<open>data = self.ffill(); rs = data / data.shift(1) - 1\<close>.
\<close>

definition pct_change :: "fl list \<Rightarrow> fl list" where
  "pct_change xs =
     (let data = ffill xs
      in map2 (\<lambda>a b. fsub (fdiv a b) (Fin 1)) data (shift data))"

text \<open>
  \<^verbatim>\<open>Series.cumprod()\<close> with the default \<^verbatim>\<open>skipna=True\<close>: a NaN counts as 1 in the running
  product and the result is NaN at its place.
\<close>

fun cumprod_from :: "fl \<Rightarrow> fl list \<Rightarrow> fl list" where
  "cumprod_from acc [] = []"
| "cumprod_from acc (x # xs) =
     (if x = NaN then NaN # cumprod_from acc xs
      else fmul acc x # cumprod_from (fmul acc x) xs)"

definition cumprod :: "fl list \<Rightarrow> fl list" where
  "cumprod xs = cumprod_from (Fin 1) xs"

text \<open>
  An arithmetic operation on two series aligns them on the index; a place that one of the
  two series does not have is NaN.
\<close>

definition align :: "nat \<Rightarrow> fl list \<Rightarrow> fl list" where
  "align n xs = xs @ replicate (n - length xs) NaN"

definition series_mul :: "fl list \<Rightarrow> fl list \<Rightarrow> fl list" where
  "series_mul xs ys =
     (let n = max (length xs) (length ys)
      in map2 fmul (align n xs) (align n ys))"

text \<open>\<^verbatim>\<open>Series.mean()\<close> and \<^verbatim>\<open>Series.std()\<close> (sample standard deviation, \<^verbatim>\<open>ddof=1\<close>) of a
  series without NaN.\<close>

definition fsum :: "fl list \<Rightarrow> fl" where
  "fsum xs = foldl fadd (Fin 0) xs"

definition mean :: "fl list \<Rightarrow> fl" where
  "mean xs = (if xs = [] then NaN else fdiv (fsum xs) (Fin (real (length xs))))"

definition var :: "fl list \<Rightarrow> fl" where
  "var xs =
     (if length xs \<le> 1 then NaN
      else let avg = fdiv (fsum xs) (Fin (real (length xs)));
               sqr = map (\<lambda>x. fmul (fsub avg x) (fsub avg x)) xs
           in fdiv (fsum sqr) (Fin (real (length xs - 1))))"

definition std :: "fl list \<Rightarrow> fl" where
  "std xs = fsqrt (var xs)"

text \<open>
  \<^verbatim>\<open>prices.rolling(window=w, min_periods=w).mean()\<close>: the mean of the last \<open>w\<close> prices, NaN
  while the window is not full.  pandas raises ValueError for a negative window; a window
  of 0 holds no price and its mean is NaN.
\<close>

definition rolling_mean :: "real list \<Rightarrow> int \<Rightarrow> error + fl list" where
  "rolling_mean prices w =
     (if w < 0 then Inl ValueError
      else Inr (map (\<lambda>i. if 0 < w \<and> nat w \<le> i + 1
                          then Fin (sum_list (take (nat w) (drop (i + 1 - nat w) prices)) / real_of_int w)
                          else NaN) [0..<length prices]))"

section \<open>Signal generation\<close>

text \<open>
  The signal is a series of integers (\<^verbatim>\<open>pd.Series(0, index=prices.index)\<close>); while it is
  built, a place may hold no value, which is what \<^verbatim>\<open>ffill\<close> and \<^verbatim>\<open>fillna\<close> look for.
\<close>

definition set_where :: "int option list \<Rightarrow> bool list \<Rightarrow> int \<Rightarrow> int option list" where
  "set_where signal msk v = map2 (\<lambda>s m. if m then Some v else s) signal msk"

fun ffill_int_from :: "int option \<Rightarrow> int option list \<Rightarrow> int option list" where
  "ffill_int_from prev [] = []"
| "ffill_int_from prev (x # xs) =
     (case x of None \<Rightarrow> prev # ffill_int_from prev xs
              | Some v \<Rightarrow> x # ffill_int_from x xs)"

definition ffill_int :: "int option list \<Rightarrow> int option list" where
  "ffill_int xs = ffill_int_from None xs"

definition fillna_int :: "int option list \<Rightarrow> int \<Rightarrow> int list" where
  "fillna_int xs v = map (\<lambda>x. case x of None \<Rightarrow> v | Some y \<Rightarrow> y) xs"

definition cross_up :: "fl list \<Rightarrow> fl list \<Rightarrow> bool list" where
  "cross_up fast_ma slow_ma =
     map2 (\<and>) (map2 fgt fast_ma slow_ma) (map2 fle (shift fast_ma) (shift slow_ma))"

definition cross_down :: "fl list \<Rightarrow> fl list \<Rightarrow> bool list" where
  "cross_down fast_ma slow_ma =
     map2 (\<and>) (map2 flt fast_ma slow_ma) (map2 fge (shift fast_ma) (shift slow_ma))"

definition moving_average_crossover_signals :: "real list \<Rightarrow> int \<Rightarrow> int \<Rightarrow> error + int list" where
  "moving_average_crossover_signals prices fast slow =
     (case rolling_mean prices fast of Inl e \<Rightarrow> Inl e | Inr fast_ma \<Rightarrow>
      case rolling_mean prices slow of Inl e \<Rightarrow> Inl e | Inr slow_ma \<Rightarrow>
        let signal = replicate (length prices) (Some 0);
            signal = set_where signal (cross_up fast_ma slow_ma) 1;
            signal = set_where signal (cross_down fast_ma slow_ma) 0
        in Inr (fillna_int (ffill_int signal) 0))"

section \<open>Backtest\<close>

definition backtest_signals :: "real list \<Rightarrow> int list \<Rightarrow> fl list" where
  "backtest_signals prices signal =
     (let returns = fillna (pct_change (map Fin prices)) (Fin 0);
          strategy_returns =
            series_mul returns (fillna (shift (map (\<lambda>s. Fin (real_of_int s)) signal)) (Fin 0))
      in cumprod (map (\<lambda>x. fadd (Fin 1) x) strategy_returns))"

section \<open>Scoring\<close>

text \<open>\<^verbatim>\<open>equity.iloc[-1]\<close> raises IndexError on an empty series.\<close>

definition iloc_last :: "fl list \<Rightarrow> error + fl" where
  "iloc_last xs = (if xs = [] then Inl IndexError else Inr (last xs))"

definition compute_performance :: "fl list \<Rightarrow> error + (fl \<times> fl)" where
  "compute_performance equity =
     (case iloc_last equity of Inl e \<Rightarrow> Inl e | Inr final \<Rightarrow>
        let total_return = fsub final (Fin 1);
            equity_returns = dropna (pct_change equity);
            sharpe = (if fne (std equity_returns) (Fin 0)
                      then fdiv (fmul (Fin (sqrt 252)) (mean equity_returns)) (std equity_returns)
                      else Fin 0)
        in Inr (total_return, sharpe))"

section \<open>Grid search\<close>

record StrategyPerformance =
  fast_period :: int
  slow_period :: int
  total_return :: fl
  sharpe :: fl
  equity :: "fl list"

text \<open>The body of the inner loop: one pair is evaluated and its record made.\<close>

definition evaluate_pair :: "real list \<Rightarrow> int \<Rightarrow> int \<Rightarrow> error + StrategyPerformance" where
  "evaluate_pair prices fast slow =
     (case moving_average_crossover_signals prices fast slow of Inl e \<Rightarrow> Inl e | Inr signal \<Rightarrow>
        let eq = backtest_signals prices signal
        in (case compute_performance eq of Inl e \<Rightarrow> Inl e
            | Inr (tr, sh) \<Rightarrow>
                Inr \<lparr>fast_period = fast, slow_period = slow, total_return = tr,
                     sharpe = sh, equity = eq\<rparr>))"

text \<open>
  The two loops, with the list \<^verbatim>\<open>performances\<close> passed along; an exception ends the search.
\<close>

fun slow_loop ::
  "real list \<Rightarrow> int \<Rightarrow> int list \<Rightarrow> StrategyPerformance list \<Rightarrow> error + StrategyPerformance list"
where
  "slow_loop prices fast [] performances = Inr performances"
| "slow_loop prices fast (slow # rest) performances =
     (case evaluate_pair prices fast slow of Inl e \<Rightarrow> Inl e
      | Inr p \<Rightarrow> slow_loop prices fast rest (performances @ [p]))"

fun fast_loop ::
  "real list \<Rightarrow> int \<Rightarrow> int \<Rightarrow> int list \<Rightarrow> StrategyPerformance list \<Rightarrow> error + StrategyPerformance list"
where
  "fast_loop prices slow_start slow_end [] performances = Inr performances"
| "fast_loop prices slow_start slow_end (fast # rest) performances =
     (case slow_loop prices fast [max (fast + 1) slow_start..slow_end] performances of
        Inl e \<Rightarrow> Inl e
      | Inr performances' \<Rightarrow> fast_loop prices slow_start slow_end rest performances')"

text \<open>
  \<^verbatim>\<open>performances.sort(key=lambda p: (p.sharpe, p.total_return), reverse=True)\<close>.
  Python compares two keys with \<open><\<close> on tuples: the first components decide unless they
  are equal.  The sort is stable, also with \<^verbatim>\<open>reverse=True\<close>: of two records neither of
  whose keys is less than the other, the one that was first stays first.  It is modelled as
  a stable insertion sort.  That is the result of Python's sort when the keys are totally
  ordered, and also when no key is less than any other (the list is then left as it is);
  when only some of the keys hold a NaN, Python's result depends on the order in which its
  algorithm compares them, and the model does not follow it.
\<close>

definition sort_key_of :: "StrategyPerformance \<Rightarrow> fl \<times> fl" where
  "sort_key_of p = (sharpe p, total_return p)"

fun key_lt :: "fl \<times> fl \<Rightarrow> fl \<times> fl \<Rightarrow> bool" where
  "key_lt (a1, b1) (a2, b2) = (if feq a1 a2 then flt b1 b2 else flt a1 a2)"

fun insort_desc :: "StrategyPerformance \<Rightarrow> StrategyPerformance list \<Rightarrow> StrategyPerformance list" where
  "insort_desc p [] = [p]"
| "insort_desc p (q # qs) =
     (if key_lt (sort_key_of p) (sort_key_of q) then q # insort_desc p qs else p # q # qs)"

definition sort_desc :: "StrategyPerformance list \<Rightarrow> StrategyPerformance list" where
  "sort_desc ps = foldr insort_desc ps []"

definition evaluate_grid ::
  "real list \<Rightarrow> int \<times> int \<Rightarrow> int \<times> int \<Rightarrow> error + StrategyPerformance list" where
  "evaluate_grid prices fast_range slow_range =
     (case fast_range of (fast_start, fast_end) \<Rightarrow>
      case slow_range of (slow_start, slow_end) \<Rightarrow>
        fast_loop prices slow_start slow_end [fast_start..fast_end] [])"

definition find_best_edges ::
  "real list \<Rightarrow> int \<times> int \<Rightarrow> int \<times> int \<Rightarrow> error + StrategyPerformance list" where
  "find_best_edges prices fast_range slow_range =
     (case evaluate_grid prices fast_range slow_range of Inl e \<Rightarrow> Inl e
      | Inr performances \<Rightarrow> Inr (take 10 (sort_desc performances)))"

section \<open>The backtest in the words of the specification\<close>

text \<open>
  The specification gives the equity curve by a recurrence over the bars: the return of bar
  \<open>i\<close> is \<open>prices[i] / prices[i-1] - 1\<close> and 0 for the first bar, the position held during
  bar \<open>i\<close> is the signal of the bar before and FLAT for the first bar, and the equity of
  a bar is the equity of the bar before, 1 before the first bar, times 1 plus the return
  times the position.  These three definitions follow the specification, not the code.
\<close>

definition bar_return :: "real list \<Rightarrow> nat \<Rightarrow> real" where
  "bar_return prices i = (if i = 0 then 0 else prices ! i / prices ! (i - 1) - 1)"

definition held_position :: "int list \<Rightarrow> nat \<Rightarrow> real" where
  "held_position signal i = (if i = 0 then 0 else real_of_int (signal ! (i - 1)))"

fun spec_equity :: "real list \<Rightarrow> int list \<Rightarrow> nat \<Rightarrow> real" where
  "spec_equity prices signal 0 =
     1 * (1 + bar_return prices 0 * held_position signal 0)"
| "spec_equity prices signal (Suc i) =
     spec_equity prices signal i
       * (1 + bar_return prices (Suc i) * held_position signal (Suc i))"

section \<open>The grid and the ranking in the words of the specification\<close>

text \<open>
  The pairs of the grid, in the order in which the two loops reach them: for every
  \<open>fast\<close> of the fast range, every \<open>slow\<close> from \<open>max (fast + 1) slow_start\<close> to the
  end of the slow range.
\<close>

definition grid_pairs :: "int \<times> int \<Rightarrow> int \<times> int \<Rightarrow> (int \<times> int) list" where
  "grid_pairs fast_range slow_range =
     (case fast_range of (fast_start, fast_end) \<Rightarrow>
      case slow_range of (slow_start, slow_end) \<Rightarrow>
        concat (map (\<lambda>fast. map (\<lambda>slow. (fast, slow)) [max (fast + 1) slow_start..slow_end])
                  [fast_start..fast_end]))"

definition periods :: "StrategyPerformance \<Rightarrow> int \<times> int" where
  "periods p = (fast_period p, slow_period p)"



definition scored :: "StrategyPerformance \<Rightarrow> bool" where
  "scored p = (is_fin (sharpe p) \<and> is_fin (total_return p))"

section \<open>Lengths of the series\<close>

lemma length_shift: "length (shift xs) = length xs"
  by (simp add: shift_def)

lemma length_fillna: "length (fillna xs v) = length xs"
  by (simp add: fillna_def)

lemma length_ffill_from: "length (ffill_from prev xs) = length xs"
  by (induction xs arbitrary: prev) auto

lemma length_ffill: "length (ffill xs) = length xs"
  by (simp add: ffill_def length_ffill_from)

lemma length_pct_change: "length (pct_change xs) = length xs"
  by (simp add: pct_change_def Let_def length_ffill length_shift)

lemma length_cumprod_from: "length (cumprod_from acc xs) = length xs"
  by (induction xs arbitrary: acc) auto

lemma length_cumprod: "length (cumprod xs) = length xs"
  by (simp add: cumprod_def length_cumprod_from)

lemma length_series_mul: "length (series_mul xs ys) = max (length xs) (length ys)"
  by (simp add: series_mul_def Let_def align_def)

lemma length_backtest_signals:
  "length (backtest_signals prices signal) = max (length prices) (length signal)"
  by (simp add: backtest_signals_def Let_def length_cumprod length_series_mul
      length_fillna length_pct_change length_shift)


lemma rolling_mean_length: "rolling_mean prices w = Inr ma \<Longrightarrow> length ma = length prices"
  by (auto simp: rolling_mean_def split: if_splits)

lemma rolling_mean_neg: "w < 0 \<Longrightarrow> rolling_mean prices w = Inl ValueError"
  by (simp add: rolling_mean_def)

lemma length_cross_up:
  "length fast_ma = n \<Longrightarrow> length slow_ma = n \<Longrightarrow> length (cross_up fast_ma slow_ma) = n"
  by (simp add: cross_up_def length_shift)

lemma length_cross_down:
  "length fast_ma = n \<Longrightarrow> length slow_ma = n \<Longrightarrow> length (cross_down fast_ma slow_ma) = n"
  by (simp add: cross_down_def length_shift)

lemma length_set_where: "length (set_where s m v) = min (length s) (length m)"
  by (simp add: set_where_def)

lemma length_ffill_int_from: "length (ffill_int_from prev xs) = length xs"
  by (induction xs arbitrary: prev) (auto split: option.splits)

lemma length_fill_signal: "length (fillna_int (ffill_int xs) v) = length xs"
  by (simp add: fillna_int_def ffill_int_def length_ffill_int_from)

lemma signals_length:
  assumes "moving_average_crossover_signals prices fast slow = Inr signal"
  shows "length signal = length prices"
  using assms
  by (auto simp: moving_average_crossover_signals_def Let_def length_fill_signal
      length_set_where length_cross_up length_cross_down
      dest!: rolling_mean_length split: sum.splits)

lemma signals_Inr:
  assumes "0 \<le> fast" "0 \<le> slow"
  shows "\<exists>signal. moving_average_crossover_signals prices fast slow = Inr signal"
  using assms by (simp add: moving_average_crossover_signals_def rolling_mean_def Let_def)

text \<open>What the generator computes: the signal is 1 at the bars of a cross-up and 0 at every
  other bar.  No place of the signal is ever empty, so \<^verbatim>\<open>ffill\<close> and \<^verbatim>\<open>fillna\<close> change
  nothing.\<close>

lemma ffill_int_from_map_Some:
  "ffill_int_from prev (map (\<lambda>x. Some (f x)) xs) = map (\<lambda>x. Some (f x)) xs"
  by (induction xs arbitrary: prev) simp_all

lemma set_where_twice:
  assumes "length up = n" and "length down = n"
  shows "set_where (set_where (replicate n (Some 0)) up 1) down 0
           = map Some (map2 (\<lambda>u d. if d then 0 else if u then 1 else 0) up down)"
  using assms by (intro nth_equalityI) (simp_all add: set_where_def)

lemma signals_are_cross_ups:
  assumes "rolling_mean prices fast = Inr fast_ma" and "rolling_mean prices slow = Inr slow_ma"
  shows "moving_average_crossover_signals prices fast slow
           = Inr (map2 (\<lambda>u d. if d then 0 else if u then 1 else 0)
                    (cross_up fast_ma slow_ma) (cross_down fast_ma slow_ma))"
proof -
  have "length (cross_up fast_ma slow_ma) = length prices"
    "length (cross_down fast_ma slow_ma) = length prices"
    using assms by (simp_all add: length_cross_up length_cross_down rolling_mean_length)
  then show ?thesis
    using assms
    by (simp add: moving_average_crossover_signals_def set_where_twice ffill_int_def
        ffill_int_from_map_Some fillna_int_def comp_def)
qed

text \<open>
  C1 (signal generation, forward fill).  The claim: the signal is LONG at every cross-up,
  FLAT at every cross-down, and between two events the last value persists, so that every
  bar after a cross-up and before the next cross-down is LONG.  In the code the signal
  starts as a series of zeros, so no place is empty when \<^verbatim>\<open>ffill\<close> runs and nothing is
  filled: the signal is LONG at the cross-up bars only.  For the prices 1, 1, 2, 3 with
  fast = 1 and slow = 2 the only event is a cross-up at bar 2, and bar 3 is FLAT.
\<close>

theorem signal_not_forward_filled:
  "rolling_mean [1, 1, 2, 3] 1 = Inr [Fin 1, Fin 1, Fin 2, Fin 3]
   \<and> rolling_mean [1, 1, 2, 3] 2 = Inr [NaN, Fin 1, Fin (3 / 2), Fin (5 / 2)]
   \<and> cross_up [Fin 1, Fin 1, Fin 2, Fin 3] [NaN, Fin 1, Fin (3 / 2), Fin (5 / 2)]
       = [False, False, True, False]
   \<and> cross_down [Fin 1, Fin 1, Fin 2, Fin 3] [NaN, Fin 1, Fin (3 / 2), Fin (5 / 2)]
       = [False, False, False, False]
   \<and> moving_average_crossover_signals [1, 1, 2, 3] 1 2 = Inr [0, 0, 1, 0]"
  by (simp add: moving_average_crossover_signals_def rolling_mean_def cross_up_def
      cross_down_def set_where_def shift_def fillna_int_def ffill_int_def fgt_def fle_def
      fge_def upt_rec)

text \<open>
  C8 (lengths).  For every price series and every pair of window lengths that pandas
  accepts (none negative), the signal is produced, it has as many bars as the price series,
  and so has the equity curve computed from it.
\<close>

theorem signal_equity_lengths:
  assumes "0 \<le> fast" and "0 \<le> slow"
  shows "\<exists>signal. moving_average_crossover_signals prices fast slow = Inr signal
           \<and> length signal = length prices
           \<and> length (backtest_signals prices signal) = length prices"
proof -
  from assms obtain signal
    where s: "moving_average_crossover_signals prices fast slow = Inr signal"
    using signals_Inr by blast
  then have "length signal = length prices" by (rule signals_length)
  then show ?thesis using s by (simp add: length_backtest_signals)
qed

theorem signal_equity_lengths_witness:
  "(0::int) \<le> 1 \<and> (0::int) \<le> 2
     \<and> moving_average_crossover_signals [1, 1, 2, 3] 1 2 = Inr [0, 0, 1, 0]
     \<and> length (backtest_signals [1, 1, 2, 3] [0, 0, 1, 0]) = length [1, 1, 2, 3 :: real]"
  using signal_equity_lengths [of 1 2 "[1, 1, 2, 3]"]
  by (simp add: moving_average_crossover_signals_def rolling_mean_def cross_up_def
      cross_down_def set_where_def shift_def fillna_int_def ffill_int_def fgt_def fle_def
      fge_def upt_rec)

section \<open>The equity curve\<close>


lemma shift_nth:
  "i < length xs \<Longrightarrow> shift xs ! i = (if i = 0 then NaN else xs ! (i - 1))"
  by (cases i) (simp_all add: shift_def)

lemma ffill_from_no_nan: "NaN \<notin> set xs \<Longrightarrow> ffill_from prev xs = xs"
  by (induction xs arbitrary: prev) auto

lemma ffill_map_Fin: "ffill (map Fin xs) = map Fin xs"
  by (rule ffill_from_no_nan [of "map Fin xs" NaN, folded ffill_def]) auto

lemma returns_nth:
  assumes "0 \<notin> set prices" and "i < length prices"
  shows "fillna (pct_change (map Fin prices)) (Fin 0) ! i = Fin (bar_return prices i)"
proof (cases i)
  case 0
  with assms show ?thesis
    by (simp add: fillna_def pct_change_def Let_def ffill_map_Fin length_shift shift_nth
        bar_return_def fsub_def)
next
  case (Suc j)
  with assms have "prices ! j \<noteq> 0"
    by (metis Suc_lessD nth_mem)
  with Suc assms show ?thesis
    by (simp add: fillna_def pct_change_def Let_def ffill_map_Fin length_shift shift_nth
        bar_return_def fsub_def)
qed

lemma position_nth:
  assumes "i < length signal"
  shows "fillna (shift (map (\<lambda>s. Fin (real_of_int s)) signal)) (Fin 0) ! i
           = Fin (held_position signal i)"
  using assms by (cases i) (simp_all add: fillna_def length_shift shift_nth held_position_def)

lemma series_mul_nth:
  assumes "length xs = length ys" and "i < length xs"
  shows "series_mul xs ys ! i = fmul (xs ! i) (ys ! i)"
  using assms by (simp add: series_mul_def align_def)

lemma cumprod_from_Fin_nth:
  assumes "i < length ys"
  shows "cumprod_from (Fin a) (map Fin ys) ! i = Fin (a * prod_list (take (Suc i) ys))"
  using assms
proof (induction ys arbitrary: a i)
  case Nil
  then show ?case by simp
next
  case (Cons y ys)
  then show ?case by (cases i) (simp_all add: mult.assoc)
qed

lemma strategy_factors:
  assumes "length signal = length prices" and "0 \<notin> set prices"
  shows "map (\<lambda>x. fadd (Fin 1) x)
           (series_mul (fillna (pct_change (map Fin prices)) (Fin 0))
              (fillna (shift (map (\<lambda>s. Fin (real_of_int s)) signal)) (Fin 0)))
         = map Fin (map (\<lambda>i. 1 + bar_return prices i * held_position signal i)
                      [0..<length prices])"
  using assms
  by (intro nth_equalityI)
    (simp_all add: length_series_mul length_fillna length_pct_change length_shift
      series_mul_nth returns_nth position_nth)

lemma spec_equity_prod:
  "spec_equity prices signal i
     = prod_list (map (\<lambda>k. 1 + bar_return prices k * held_position signal k) [0..<Suc i])"
  by (induction i) simp_all

lemma backtest_nth:
  assumes "length signal = length prices" and "0 \<notin> set prices" and "i < length prices"
  shows "backtest_signals prices signal ! i = Fin (spec_equity prices signal i)"
proof -
  let ?f = "\<lambda>k. 1 + bar_return prices k * held_position signal k"
  have "backtest_signals prices signal = cumprod_from (Fin 1) (map Fin (map ?f [0..<length prices]))"
    using assms(1,2) by (simp add: backtest_signals_def Let_def cumprod_def strategy_factors)
  moreover have "take (Suc i) (map ?f [0..<length prices]) = map ?f [0..<Suc i]"
    using assms(3) by (simp add: take_map del: upt_Suc)
  moreover have "cumprod_from (Fin 1) (map Fin (map ?f [0..<length prices])) ! i
      = Fin (1 * prod_list (take (Suc i) (map ?f [0..<length prices])))"
    using assms(3) by (intro cumprod_from_Fin_nth) simp
  ultimately show ?thesis
    by (simp only: spec_equity_prod mult_1)
qed








section \<open>Insufficient data\<close>













section \<open>Scoring\<close>

lemma fne_zero: "fne x (Fin 0) \<longleftrightarrow> x \<noteq> Fin 0"
  by (cases x) (simp_all add: fne_def)


lemma compute_performance_empty: "compute_performance [] = Inl IndexError"
  by (simp add: compute_performance_def iloc_last_def)

lemma fsum_Fin_from: "foldl fadd (Fin a) (map Fin ys) = Fin (a + sum_list ys)"
  by (induction ys arbitrary: a) (simp_all add: add.assoc)

lemma fsum_Fin: "fsum (map Fin ys) = Fin (sum_list ys)"
  by (simp add: fsum_def fsum_Fin_from)

lemma mean_Fin:
  assumes "ys \<noteq> []"
  shows "mean (map Fin ys) = Fin (sum_list ys / real (length ys))"
  using assms by (simp add: mean_def fsum_Fin)

lemma var_Fin:
  assumes "2 \<le> length ys"
  shows "var (map Fin ys)
           = Fin ((\<Sum>y\<leftarrow>ys. (sum_list ys / real (length ys) - y)\<^sup>2) / real (length ys - 1))"
proof -
  let ?avg = "sum_list ys / real (length ys)"
  have "map (\<lambda>x. fmul (fsub (Fin ?avg) x) (fsub (Fin ?avg) x)) (map Fin ys)
          = map Fin (map (\<lambda>y. (?avg - y)\<^sup>2) ys)"
    by (simp add: fsub_def power2_eq_square)
  moreover have "real (length ys) \<noteq> 0" "real (length ys - 1) \<noteq> 0" "\<not> length ys \<le> 1"
    using assms by auto
  ultimately show ?thesis
    by (simp only: var_def Let_def fsum_Fin fdiv.simps length_map if_False if_True not_False_eq_True)
qed

lemma std_Fin:
  assumes "2 \<le> length ys"
  shows "std (map Fin ys)
           = Fin (sqrt ((\<Sum>y\<leftarrow>ys. (sum_list ys / real (length ys) - y)\<^sup>2) / real (length ys - 1)))"
proof -
  have "0 \<le> (\<Sum>y\<leftarrow>ys. (sum_list ys / real (length ys) - y)\<^sup>2)"
    by (intro sum_list_nonneg) auto
  then have "0 \<le> (\<Sum>y\<leftarrow>ys. (sum_list ys / real (length ys) - y)\<^sup>2) / real (length ys - 1)"
    by simp
  then show ?thesis
    by (simp add: std_def var_Fin [OF assms])
qed







text \<open>
  C7 (empty price series).  The claim: for the empty price series every stage completes
  without raising.  In the code the signal and the equity curve of the empty series are
  empty, and \<^verbatim>\<open>compute_performance\<close> then reads \<^verbatim>\<open>equity.iloc[-1]\<close> of the empty curve,
  which raises IndexError; the search raises it at its first pair.
\<close>

theorem empty_series_raises:
  "moving_average_crossover_signals [] 1 2 = Inr []
   \<and> backtest_signals [] [] = []
   \<and> compute_performance [] = Inl IndexError
   \<and> evaluate_pair [] 1 2 = Inl IndexError
   \<and> find_best_edges [] (1, 1) (2, 2) = Inl IndexError"
proof -
  have s: "moving_average_crossover_signals [] 1 2 = Inr []"
    by (simp add: moving_average_crossover_signals_def rolling_mean_def cross_up_def
        cross_down_def set_where_def shift_def fillna_int_def ffill_int_def)
  have b: "backtest_signals [] [] = []"
    by (simp add: backtest_signals_def pct_change_def ffill_def shift_def fillna_def
        series_mul_def align_def cumprod_def)
  have e: "evaluate_pair [] 1 2 = Inl IndexError"
    by (simp add: evaluate_pair_def s b compute_performance_empty)
  have "find_best_edges [] (1, 1) (2, 2) = Inl IndexError"
    by (simp add: find_best_edges_def evaluate_grid_def e)
  with s b e show ?thesis by (simp add: compute_performance_empty)
qed

section \<open>The grid\<close>

lemma evaluate_pair_periods:
  assumes "evaluate_pair prices fast slow = Inr p"
  shows "periods p = (fast, slow)"
  using assms
  by (auto simp: evaluate_pair_def Let_def periods_def split: sum.splits prod.splits)

lemma slow_loop_appends:
  assumes "slow_loop prices fast slows performances = Inr result"
  shows "\<exists>new. result = performances @ new
           \<and> map periods new = map (\<lambda>slow. (fast, slow)) slows
           \<and> (\<forall>p\<in>set new. evaluate_pair prices (fast_period p) (slow_period p) = Inr p)"
  using assms
proof (induction slows arbitrary: performances)
  case Nil
  then show ?case by simp
next
  case (Cons slow rest)
  from Cons.prems obtain p where p: "evaluate_pair prices fast slow = Inr p"
    and r: "slow_loop prices fast rest (performances @ [p]) = Inr result"
    by (auto split: sum.splits)
  from Cons.IH [OF r] obtain new where new: "result = (performances @ [p]) @ new"
    "map periods new = map (\<lambda>slow. (fast, slow)) rest"
    "\<forall>q\<in>set new. evaluate_pair prices (fast_period q) (slow_period q) = Inr q"
    by blast
  from p have pp: "periods p = (fast, slow)" by (rule evaluate_pair_periods)
  then have "evaluate_pair prices (fast_period p) (slow_period p) = Inr p"
    using p by (simp add: periods_def)
  with new pp have "result = performances @ (p # new)
      \<and> map periods (p # new) = map (\<lambda>slow. (fast, slow)) (slow # rest)
      \<and> (\<forall>q\<in>set (p # new). evaluate_pair prices (fast_period q) (slow_period q) = Inr q)"
    by simp
  then show ?case by blast
qed

lemma fast_loop_appends:
  assumes "fast_loop prices slow_start slow_end fasts performances = Inr result"
  shows "\<exists>new. result = performances @ new
           \<and> map periods new
               = concat (map (\<lambda>fast. map (\<lambda>slow. (fast, slow))
                                         [max (fast + 1) slow_start..slow_end]) fasts)
           \<and> (\<forall>p\<in>set new. evaluate_pair prices (fast_period p) (slow_period p) = Inr p)"
  using assms
proof (induction fasts arbitrary: performances)
  case Nil
  then show ?case by simp
next
  case (Cons fast rest)
  from Cons.prems obtain mid
    where m: "slow_loop prices fast [max (fast + 1) slow_start..slow_end] performances = Inr mid"
      and r: "fast_loop prices slow_start slow_end rest mid = Inr result"
    by (auto split: sum.splits)
  from slow_loop_appends [OF m] obtain new1 where n1: "mid = performances @ new1"
    "map periods new1 = map (\<lambda>slow. (fast, slow)) [max (fast + 1) slow_start..slow_end]"
    "\<forall>p\<in>set new1. evaluate_pair prices (fast_period p) (slow_period p) = Inr p"
    by blast
  from Cons.IH [OF r] obtain new2 where n2: "result = mid @ new2"
    "map periods new2
       = concat (map (\<lambda>fast. map (\<lambda>slow. (fast, slow))
                                 [max (fast + 1) slow_start..slow_end]) rest)"
    "\<forall>p\<in>set new2. evaluate_pair prices (fast_period p) (slow_period p) = Inr p"
    by blast
  from n1 n2 have "result = performances @ (new1 @ new2)
      \<and> map periods (new1 @ new2)
          = concat (map (\<lambda>fast. map (\<lambda>slow. (fast, slow))
                                    [max (fast + 1) slow_start..slow_end]) (fast # rest))
      \<and> (\<forall>p\<in>set (new1 @ new2). evaluate_pair prices (fast_period p) (slow_period p) = Inr p)"
    by auto
  then show ?case by blast
qed

lemma evaluate_grid_pairs:
  assumes "evaluate_grid prices fast_range slow_range = Inr performances"
  shows "map periods performances = grid_pairs fast_range slow_range"
    and "\<forall>p\<in>set performances. evaluate_pair prices (fast_period p) (slow_period p) = Inr p"
  using assms fast_loop_appends [of prices "fst slow_range" "snd slow_range"
      "[fst fast_range..snd fast_range]" "[]" performances]
  by (auto simp: evaluate_grid_def grid_pairs_def split: prod.splits)

lemma grid_pairs_fast_lt_slow:
  assumes "(fast, slow) \<in> set (grid_pairs fast_range slow_range)"
  shows "fast < slow"
  using assms by (auto simp: grid_pairs_def split: prod.splits)





lemma find_best_edges_subset:
  assumes "evaluate_grid prices fast_range slow_range = Inr performances"
    and "find_best_edges prices fast_range slow_range = Inr result"
  shows "set result \<subseteq> set performances"
proof -
  have "set (foldr insort_desc ps []) = set ps" for ps
  proof (induction ps)
    case Nil
    then show ?case by simp
  next
    case (Cons p ps)
    have "set (insort_desc p qs) = insert p (set qs)" for qs
      by (induction qs) auto
    with Cons show ?case by simp
  qed
  then have "set (sort_desc performances) = set performances"
    by (simp add: sort_desc_def)
  with assms show ?thesis
    by (auto simp: find_best_edges_def dest: in_set_takeD)
qed

section \<open>The ranking\<close>









section \<open>Scores that are numbers\<close>

lemma set_set_where: "set (set_where s m v) \<subseteq> insert (Some v) (set s)"
  by (auto simp: set_where_def dest!: set_zip_leftD split: if_splits)

lemma set_ffill_int_from: "set (ffill_int_from prev xs) \<subseteq> insert prev (set xs)"
  by (induction xs arbitrary: prev) (auto split: option.splits)

lemma signals_binary:
  assumes "moving_average_crossover_signals prices fast slow = Inr signal"
  shows "set signal \<subseteq> {0, 1}"
proof -
  from assms obtain fast_ma slow_ma where
    s: "signal = fillna_int (ffill_int (set_where (set_where (replicate (length prices) (Some 0))
                   (cross_up fast_ma slow_ma) 1) (cross_down fast_ma slow_ma) 0)) 0"
    by (auto simp: moving_average_crossover_signals_def Let_def split: sum.splits)
  let ?s1 = "set_where (replicate (length prices) (Some 0)) (cross_up fast_ma slow_ma) 1"
  let ?s2 = "set_where ?s1 (cross_down fast_ma slow_ma) 0"
  have "set ?s1 \<subseteq> {Some 0, Some 1}"
    using set_set_where [of "replicate (length prices) (Some 0)" "cross_up fast_ma slow_ma" 1]
    by auto
  then have "set ?s2 \<subseteq> {Some 0, Some 1}"
    using set_set_where [of ?s1 "cross_down fast_ma slow_ma" 0] by auto
  then have "set (ffill_int ?s2) \<subseteq> {None, Some 0, Some 1}"
    using set_ffill_int_from [of None ?s2] by (auto simp: ffill_int_def)
  then show ?thesis
    unfolding s fillna_int_def by (auto split: option.splits)
qed

lemma factor_nonzero:
  assumes "0 \<notin> set prices" and "set signal \<subseteq> {0, 1}"
    and "length signal = length prices" and "i < length prices"
  shows "1 + bar_return prices i * held_position signal i \<noteq> 0"
proof (cases i)
  case 0
  then show ?thesis by (simp add: bar_return_def)
next
  case (Suc j)
  with assms have j: "j < length prices" "j < length signal" by simp_all
  from assms(1,4) j Suc have p: "prices ! i \<noteq> 0" "prices ! j \<noteq> 0"
    by (metis nth_mem)+
  from assms(2) j have "signal ! j = 0 \<or> signal ! j = 1"
    using nth_mem by blast
  then show ?thesis
  proof
    assume "signal ! j = 0"
    with Suc show ?thesis by (simp add: held_position_def)
  next
    assume "signal ! j = 1"
    with Suc p show ?thesis by (simp add: held_position_def bar_return_def)
  qed
qed

lemma spec_equity_nonzero:
  assumes "0 \<notin> set prices" and "set signal \<subseteq> {0, 1}"
    and "length signal = length prices" and "i < length prices"
  shows "spec_equity prices signal i \<noteq> 0"
  using assms(4)
proof (induction i)
  case 0
  with factor_nonzero [OF assms(1-3), of 0] show ?case by simp
next
  case (Suc i)
  then have "spec_equity prices signal i \<noteq> 0" by simp
  moreover have "1 + bar_return prices (Suc i) * held_position signal (Suc i) \<noteq> 0"
    using factor_nonzero [OF assms(1-3)] Suc.prems by blast
  ultimately show ?case by simp
qed

lemma backtest_values:
  assumes "0 \<notin> set prices" and "set signal \<subseteq> {0, 1}" and "length signal = length prices"
  shows "\<exists>e. backtest_signals prices signal = map Fin e \<and> length e = length prices
             \<and> 0 \<notin> set e"
proof -
  let ?e = "map (spec_equity prices signal) [0..<length prices]"
  have "backtest_signals prices signal = map Fin ?e"
    using assms(1,3)
    by (intro nth_equalityI) (simp_all add: length_backtest_signals backtest_nth)
  moreover have "0 \<notin> set ?e"
    using spec_equity_nonzero [OF assms] by auto
  ultimately show ?thesis by (intro exI [of _ ?e]) simp
qed

lemma pct_change_Fin:
  assumes "0 \<notin> set xs" and "xs \<noteq> []"
  shows "pct_change (map Fin xs)
           = NaN # map Fin (map (\<lambda>i. xs ! Suc i / xs ! i - 1) [0..<length xs - 1])"
proof (intro nth_equalityI)
  show "length (pct_change (map Fin xs))
      = length (NaN # map Fin (map (\<lambda>i. xs ! Suc i / xs ! i - 1) [0..<length xs - 1]))"
    using assms(2) by (simp add: length_pct_change)
next
  fix i assume "i < length (pct_change (map Fin xs))"
  then have i: "i < length xs" by (simp add: length_pct_change)
  show "pct_change (map Fin xs) ! i
      = (NaN # map Fin (map (\<lambda>i. xs ! Suc i / xs ! i - 1) [0..<length xs - 1])) ! i"
  proof (cases i)
    case 0
    with i show ?thesis
      by (simp add: pct_change_def Let_def ffill_map_Fin length_shift shift_nth fsub_def)
  next
    case (Suc j)
    with i assms(1) have "xs ! j \<noteq> 0"
      by (metis Suc_lessD nth_mem)
    with Suc i show ?thesis
      by (simp add: pct_change_def Let_def ffill_map_Fin length_shift shift_nth fsub_def)
  qed
qed

lemma compute_performance_scored:
  assumes "0 \<notin> set e" and "3 \<le> length e"
  shows "\<exists>a b. compute_performance (map Fin e) = Inr (Fin a, Fin b)"
proof -
  let ?r = "map (\<lambda>i. e ! Suc i / e ! i - 1) [0..<length e - 1]"
  from assms(2) have ne: "e \<noteq> []" by auto
  then have r: "dropna (pct_change (map Fin e)) = map Fin ?r"
    using assms(1) by (simp add: pct_change_Fin dropna_def filter_map comp_def)
  have l: "2 \<le> length ?r" "?r \<noteq> []" using assms(2) by auto
  obtain s where s: "std (map Fin ?r) = Fin s"
    using std_Fin [OF l(1)] by blast
  obtain m where m: "mean (map Fin ?r) = Fin m"
    using mean_Fin [OF l(2)] by blast
  have "compute_performance (map Fin e)
      = Inr (fsub (last (map Fin e)) (Fin 1),
             if fne (std (dropna (pct_change (map Fin e)))) (Fin 0)
             then fdiv (fmul (Fin (sqrt 252)) (mean (dropna (pct_change (map Fin e)))))
                       (std (dropna (pct_change (map Fin e))))
             else Fin 0)"
    using ne by (simp add: compute_performance_def iloc_last_def Let_def)
  also have "fsub (last (map Fin e)) (Fin 1) = Fin (last e - 1)"
    using ne by (simp add: fsub_def last_map)
  finally have "compute_performance (map Fin e)
      = Inr (Fin (last e - 1),
             if fne (Fin s) (Fin 0) then fdiv (fmul (Fin (sqrt 252)) (Fin m)) (Fin s) else Fin 0)"
    unfolding r s m .
  then show ?thesis
    by (cases "s = 0") (simp_all add: fne_zero)
qed

lemma evaluate_pair_scored:
  assumes "0 \<notin> set prices" and "3 \<le> length prices" and "0 \<le> fast" and "0 \<le> slow"
  shows "\<exists>p. evaluate_pair prices fast slow = Inr p \<and> scored p"
proof -
  from assms(3,4) obtain signal
    where s: "moving_average_crossover_signals prices fast slow = Inr signal"
    using signals_Inr by blast
  from backtest_values [OF assms(1) signals_binary [OF s] signals_length [OF s]]
  obtain e where e: "backtest_signals prices signal = map Fin e" "length e = length prices"
    "0 \<notin> set e"
    by blast
  with assms(2) obtain a b where "compute_performance (map Fin e) = Inr (Fin a, Fin b)"
    using compute_performance_scored [of e] by auto
  with s e show ?thesis
    by (simp add: evaluate_pair_def scored_def is_fin_def)
qed

lemma slow_loop_returns:
  assumes "\<forall>slow\<in>set slows. \<exists>p. evaluate_pair prices fast slow = Inr p"
  shows "\<exists>result. slow_loop prices fast slows performances = Inr result"
  using assms
proof (induction slows arbitrary: performances)
  case Nil
  then show ?case by simp
next
  case (Cons slow rest)
  then obtain p where "evaluate_pair prices fast slow = Inr p" by auto
  with Cons show ?case by simp
qed

lemma fast_loop_returns:
  assumes "\<forall>fast\<in>set fasts. \<forall>slow\<in>set [max (fast + 1) slow_start..slow_end].
             \<exists>p. evaluate_pair prices fast slow = Inr p"
  shows "\<exists>result. fast_loop prices slow_start slow_end fasts performances = Inr result"
  using assms
proof (induction fasts arbitrary: performances)
  case Nil
  then show ?case by simp
next
  case (Cons fast rest)
  then obtain mid
    where "slow_loop prices fast [max (fast + 1) slow_start..slow_end] performances = Inr mid"
    using slow_loop_returns [of "[max (fast + 1) slow_start..slow_end]" prices fast performances]
    by auto
  with Cons show ?case by simp
qed

lemma evaluate_grid_scored:
  assumes "0 \<notin> set prices" and "3 \<le> length prices" and "0 \<le> fst fast_range"
  shows "\<exists>performances. evaluate_grid prices fast_range slow_range = Inr performances
           \<and> (\<forall>p\<in>set performances. scored p)"
proof -
  obtain fs fe ss se where r: "fast_range = (fs, fe)" "slow_range = (ss, se)"
    by (cases fast_range, cases slow_range) blast
  have "\<exists>p. evaluate_pair prices fast slow = Inr p"
    if "fast \<in> set [fs..fe]" and "slow \<in> set [max (fast + 1) ss..se]" for fast slow
    using that assms(3) evaluate_pair_scored [OF assms(1,2), of fast slow] r by auto
  then obtain performances where p: "evaluate_grid prices fast_range slow_range = Inr performances"
    using fast_loop_returns [of "[fs..fe]" ss se prices "[]"] r
    by (auto simp: evaluate_grid_def)
  have "scored q" if "q \<in> set performances" for q
  proof -
    from that evaluate_grid_pairs(2) [OF p]
    have q: "evaluate_pair prices (fast_period q) (slow_period q) = Inr q" by blast
    from that have "periods q \<in> set (grid_pairs fast_range slow_range)"
      using evaluate_grid_pairs(1) [OF p] by (metis image_eqI set_map)
    then have "0 \<le> fast_period q" "0 \<le> slow_period q"
      using assms(3) r by (auto simp: grid_pairs_def periods_def)
    with q evaluate_pair_scored [OF assms(1,2), of "fast_period q" "slow_period q"]
    show ?thesis by auto
  qed
  with p show ?thesis by blast
qed

section \<open>The search\<close>




















text \<open>
  C4 (fast below slow).  For every price series and all integer ranges, overlapping and
  inverted ones too: in every pair the two loops reach the fast period is below the slow
  period, and so it is in every record the loops collect and in every record that
  \<^verbatim>\<open>find_best_edges\<close> returns.  The bound \<open>max (fast + 1) slow_start\<close> of the inner loop
  makes it so; nothing is filtered afterwards.
\<close>

theorem fast_below_slow:
  "(\<forall>pr\<in>set (grid_pairs fast_range slow_range). fst pr < snd pr)
   \<and> (evaluate_grid prices fast_range slow_range = Inr performances
        \<longrightarrow> (\<forall>p\<in>set performances. fast_period p < slow_period p))
   \<and> (find_best_edges prices fast_range slow_range = Inr result
        \<longrightarrow> (\<forall>p\<in>set result. fast_period p < slow_period p))"
proof -
  have g: "\<forall>pr\<in>set (grid_pairs fast_range slow_range). fst pr < snd pr"
    using grid_pairs_fast_lt_slow [of _ _ fast_range slow_range] by auto
  have e: "\<forall>p\<in>set ps. fast_period p < slow_period p"
    if "evaluate_grid prices fast_range slow_range = Inr ps" for ps
  proof
    fix p assume "p \<in> set ps"
    then have "periods p \<in> set (grid_pairs fast_range slow_range)"
      using evaluate_grid_pairs(1) [OF that] by (metis image_eqI set_map)
    with g show "fast_period p < slow_period p"
      by (auto simp: periods_def)
  qed
  have "\<forall>p\<in>set result. fast_period p < slow_period p"
    if r: "find_best_edges prices fast_range slow_range = Inr result"
  proof -
    from r obtain ps where ps: "evaluate_grid prices fast_range slow_range = Inr ps"
      by (auto simp: find_best_edges_def split: sum.splits)
    from find_best_edges_subset [OF ps r] e [OF ps] show ?thesis by blast
  qed
  then have r: "find_best_edges prices fast_range slow_range = Inr result
      \<longrightarrow> (\<forall>p\<in>set result. fast_period p < slow_period p)" ..
  have "evaluate_grid prices fast_range slow_range = Inr performances
      \<longrightarrow> (\<forall>p\<in>set performances. fast_period p < slow_period p)"
    using e by (rule impI)
  with g r show ?thesis by (intro conjI)
qed

theorem fast_below_slow_witness:
  "grid_pairs (2 :: int, 3 :: int) (1 :: int, 4 :: int) = [(2, 3), (2, 4), (3, 4)]
   \<and> list_all (\<lambda>pr. fst pr < snd pr) (grid_pairs (2, 3) (1, 4))
   \<and> (\<exists>performances result.
         evaluate_grid [100, 102, 101] (2, 3) (1, 4) = Inr performances
       \<and> map periods performances = [(2, 3), (2, 4), (3, 4)]
       \<and> list_all (\<lambda>p. fast_period p < slow_period p) performances
       \<and> find_best_edges [100, 102, 101] (2, 3) (1, 4) = Inr result
       \<and> list_all (\<lambda>p. fast_period p < slow_period p) result)"
proof -
  have g: "grid_pairs (2 :: int, 3 :: int) (1 :: int, 4 :: int) = [(2, 3), (2, 4), (3, 4)]"
    by (simp add: grid_pairs_def upto_rec1)
  have "0 \<notin> set [100, 102, 101 :: real]" "3 \<le> length [100, 102, 101 :: real]"
    "(0 :: int) \<le> fst (2 :: int, 3 :: int)"
    by simp_all
  from evaluate_grid_scored [OF this, of "(1, 4)"] obtain performances
    where p: "evaluate_grid [100, 102, 101] (2, 3) (1, 4) = Inr performances"
    by blast
  define result where "result = take 10 (sort_desc performances)"
  have r: "find_best_edges [100, 102, 101] (2, 3) (1, 4) = Inr result"
    by (simp add: find_best_edges_def p result_def)
  have m: "map periods performances = [(2, 3), (2, 4), (3, 4)]"
    using evaluate_grid_pairs(1) [OF p] g by simp
  from fast_below_slow [of "(2, 3)" "(1, 4)" "[100, 102, 101]" performances result] p r
  have "list_all (\<lambda>pr. fst pr < snd pr) (grid_pairs (2 :: int, 3 :: int) (1 :: int, 4 :: int))"
    "list_all (\<lambda>p. fast_period p < slow_period p) performances"
    "list_all (\<lambda>p. fast_period p < slow_period p) result"
    by (simp_all add: list_all_iff)
  with g p r m show ?thesis
    by (intro conjI exI [of _ performances] exI [of _ result])
qed



end
